theory Spec2Isabelle
  imports Complex_Main "HOL-Library.Sublist" "HOL-Library.AList"
begin

section \<open>JavaScript strings\<close>

text \<open>
  A JavaScript string is modelled as the list of its code units, for texts whose code
  units are below 256 (the Latin-1 range), which is what an Isabelle \<open>char\<close> holds.
  The character classes below are those of the regular expressions of the source,
  restricted to that range: \<open>\s\<close> is tab, line feed, vertical tab, form feed, carriage
  return, space and the no-break space; \<open>\w\<close> is \<open>[A-Za-z0-9_]\<close>.
\<close>

definition code :: "char \<Rightarrow> int" where
  "code c = of_char c"

definition is_space :: "char \<Rightarrow> bool" where
  "is_space c = (code c \<in> {9, 10, 11, 12, 13, 32, 160})"

definition is_digit :: "char \<Rightarrow> bool" where
  "is_digit c = (48 \<le> code c \<and> code c \<le> 57)"

definition digits_value :: "string \<Rightarrow> int" where
  "digits_value w = foldl (\<lambda>n c. 10 * n + (code c - 48)) 0 w"

definition is_word :: "char \<Rightarrow> bool" where
  "is_word c = ((65 \<le> code c \<and> code c \<le> 90) \<or> (97 \<le> code c \<and> code c \<le> 122)
     \<or> is_digit c \<or> code c = 95)"

definition lower_char :: "char \<Rightarrow> char" where
  "lower_char c =
     (if (65 \<le> code c \<and> code c \<le> 90) \<or> (192 \<le> code c \<and> code c \<le> 222 \<and> code c \<noteq> 215)
      then char_of (code c + 32) else c)"

definition toLowerCase :: "string \<Rightarrow> string" where
  "toLowerCase s = map lower_char s"

fun str_includes :: "string \<Rightarrow> string \<Rightarrow> bool" where
  "str_includes [] k = (k = [])"
| "str_includes (c # cs) k = (prefix k (c # cs) \<or> str_includes cs k)"

definition trim :: "string \<Rightarrow> string" where
  "trim s = rev (dropWhile is_space (rev (dropWhile is_space s)))"

section \<open>JavaScript values\<close>

text \<open>
  The values a stage's parsed output is made of. A number is a \<open>real\<close>: the model
  computes with exact arithmetic where JavaScript rounds to a double. \<open>undefined\<close> (an
  absent property) is \<open>None\<close> of \<open>json option\<close>. An object is the list of its members
  in insertion order, each key once.
\<close>

datatype json =
    JNull
  | JBool bool
  | JNum real
  | JStr string
  | JArr "json list"
  | JObj "(string \<times> json) list"

text \<open>The result of an arithmetic expression, which unlike a parsed number may be NaN.\<close>

datatype number = Num real | NaN

section \<open>JSON.parse\<close>

text \<open>
  \<open>JSON.parse\<close> is the runtime's; it is modelled here after the JSON grammar (ECMA-404):
  a lexer, then a pushdown recogniser over the tokens that builds the value. A number
  is read as the exact decimal it denotes. An escape \<open>\uXXXX\<close> below 0100 is the code unit
  it denotes; one above 00FF denotes a code unit outside the modelled range and is kept
  as its six characters. A repeated key keeps its first position and takes the last
  value, as a JavaScript object does.
\<close>

definition dquote :: char where "dquote = CHR 0x22"
definition squote :: char where "squote = CHR 0x27"
definition backslash :: char where "backslash = CHR 0x5C"
definition backtick :: char where "backtick = CHR 0x60"

definition is_json_ws :: "char \<Rightarrow> bool" where
  "is_json_ws c = (code c \<in> {9, 10, 13, 32})"

datatype token =
    TLBrace | TRBrace | TLBracket | TRBracket | TColon | TComma
  | TStr string | TNum real | TTrue | TFalse | TNull

definition hex_value :: "char \<Rightarrow> int option" where
  "hex_value c =
     (if is_digit c then Some (code c - 48)
      else if 97 \<le> code c \<and> code c \<le> 102 then Some (code c - 87)
      else if 65 \<le> code c \<and> code c \<le> 70 then Some (code c - 55)
      else None)"

definition unicode_escape :: "char \<Rightarrow> char \<Rightarrow> char \<Rightarrow> char \<Rightarrow> string option" where
  "unicode_escape a b c d =
     (case (hex_value a, hex_value b, hex_value c, hex_value d) of
        (Some h1, Some h2, Some h3, Some h4) \<Rightarrow>
          (let v = ((h1 * 16 + h2) * 16 + h3) * 16 + h4
           in if v < 256 then Some [char_of v] else Some [backslash, CHR ''u'', a, b, c, d])
      | _ \<Rightarrow> None)"

definition simple_escape :: "char \<Rightarrow> char option" where
  "simple_escape e =
     (if e = dquote then Some dquote
      else if e = backslash then Some backslash
      else if e = CHR ''/'' then Some CHR ''/''
      else if e = CHR ''b'' then Some (CHR 0x08)
      else if e = CHR ''f'' then Some (CHR 0x0C)
      else if e = CHR ''n'' then Some (CHR 0x0A)
      else if e = CHR ''r'' then Some (CHR 0x0D)
      else if e = CHR ''t'' then Some (CHR 0x09)
      else None)"

fun lex_string :: "string \<Rightarrow> string \<Rightarrow> (string \<times> string) option" where
  "lex_string acc [] = None"
| "lex_string acc [c] = (if c = dquote then Some (rev acc, []) else None)"
| "lex_string acc (c # e # cs) =
     (if c = dquote then Some (rev acc, e # cs)
      else if c = backslash then
        (if e = CHR ''u'' then
           (case cs of
              h1 # h2 # h3 # h4 # rest \<Rightarrow>
                (case unicode_escape h1 h2 h3 h4 of
                   None \<Rightarrow> None
                 | Some s \<Rightarrow> lex_string (rev s @ acc) rest)
            | _ \<Rightarrow> None)
         else (case simple_escape e of
                 None \<Rightarrow> None
               | Some x \<Rightarrow> lex_string (x # acc) cs))
      else if code c < 32 then None
      else lex_string (c # acc) (e # cs))"

definition lex_int :: "string \<Rightarrow> (string \<times> string) option" where
  "lex_int s =
     (case s of
        [] \<Rightarrow> None
      | d # r \<Rightarrow>
          if d = CHR ''0'' then Some ([d], r)
          else if is_digit d then Some (takeWhile is_digit s, dropWhile is_digit s)
          else None)"

definition lex_frac :: "string \<Rightarrow> (string \<times> string) option" where
  "lex_frac s =
     (case s of
        [] \<Rightarrow> Some ([], s)
      | p # r \<Rightarrow>
          if p = CHR ''.'' then
            (if takeWhile is_digit r = [] then None
             else Some (takeWhile is_digit r, dropWhile is_digit r))
          else Some ([], s))"

definition lex_exp :: "string \<Rightarrow> (int \<times> string) option" where
  "lex_exp s =
     (case s of
        [] \<Rightarrow> Some (0, s)
      | e # r \<Rightarrow>
          if e = CHR ''e'' \<or> e = CHR ''E'' then
            (let sign = (case r of [] \<Rightarrow> 1 | x # _ \<Rightarrow> if x = CHR ''-'' then - 1 else 1);
                 r' = (case r of [] \<Rightarrow> r | x # t \<Rightarrow> if x = CHR ''-'' \<or> x = CHR ''+'' then t else r)
             in if takeWhile is_digit r' = [] then None
                else Some (sign * digits_value (takeWhile is_digit r'), dropWhile is_digit r'))
          else Some (0, s))"

definition scale :: "int \<Rightarrow> int \<Rightarrow> real" where
  "scale m e = (if 0 \<le> e then of_int m * 10 ^ nat e else of_int m / 10 ^ nat (- e))"

definition lex_number :: "string \<Rightarrow> (real \<times> string) option" where
  "lex_number s =
     (let negative = (case s of [] \<Rightarrow> False | c # _ \<Rightarrow> c = CHR ''-'');
          s1 = (if negative then tl s else s)
      in case lex_int s1 of
           None \<Rightarrow> None
         | Some (ds, s2) \<Rightarrow>
             (case lex_frac s2 of
                None \<Rightarrow> None
              | Some (fs, s3) \<Rightarrow>
                  (case lex_exp s3 of
                     None \<Rightarrow> None
                   | Some (e, s4) \<Rightarrow>
                       Some ((if negative then - 1 else 1)
                               * scale (digits_value (ds @ fs)) (e - int (length fs)), s4))))"

lemma lex_string_length:
  "lex_string acc cs = Some (s, rest) \<Longrightarrow> length rest < length cs"
proof (induction "length cs" arbitrary: acc cs rule: less_induct)
  case less
  show ?case
  proof (cases cs)
    case Nil
    with less.prems show ?thesis by simp
  next
    case outer: (Cons c r)
    show ?thesis
    proof (cases r)
      case Nil
      with outer less.prems show ?thesis by (simp split: if_splits)
    next
      case (Cons e cs')
      with outer have eq: "cs = c # e # cs'" by simp
      consider (quote) "c = dquote"
        | (uni) "c \<noteq> dquote" "c = backslash" "e = CHR ''u''"
        | (esc) "c \<noteq> dquote" "c = backslash" "e \<noteq> CHR ''u''"
        | (chr) "c \<noteq> dquote" "c \<noteq> backslash"
        by blast
      then show ?thesis
      proof cases
        case quote
        with less.prems eq show ?thesis by simp
      next
        case uni
        with less.prems eq obtain h1 h2 h3 h4 rest0 s' where
          "cs' = h1 # h2 # h3 # h4 # rest0" "lex_string (rev s' @ acc) rest0 = Some (s, rest)"
          by (simp split: list.splits option.splits)
        with less.hyps [of rest0 "rev s' @ acc"] eq show ?thesis by simp
      next
        case esc
        with less.prems eq obtain x where "lex_string (x # acc) cs' = Some (s, rest)"
          by (simp split: option.splits)
        with less.hyps [of cs' "x # acc"] eq show ?thesis by simp
      next
        case chr
        with less.prems eq have "lex_string (c # acc) (e # cs') = Some (s, rest)"
          by (simp split: if_splits)
        with less.hyps [of "e # cs'" "c # acc"] eq show ?thesis by simp
      qed
    qed
  qed
qed

lemma lex_int_length: "lex_int s = Some (ds, rest) \<Longrightarrow> length rest < length s"
proof (cases s)
  case Nil
  then show "lex_int s = Some (ds, rest) \<Longrightarrow> length rest < length s" by (simp add: lex_int_def)
next
  case (Cons d r)
  assume "lex_int s = Some (ds, rest)"
  with Cons show "length rest < length s"
    using length_dropWhile_le [of is_digit r]
    by (auto simp: lex_int_def split: if_splits)
qed

lemma lex_frac_length: "lex_frac s = Some (fs, rest) \<Longrightarrow> length rest \<le> length s"
  using length_dropWhile_le [of is_digit "tl s"]
  by (cases s) (auto simp: lex_frac_def split: if_splits)

lemma lex_exp_length: "lex_exp s = Some (e, rest) \<Longrightarrow> length rest \<le> length s"
proof (cases s)
  case Nil
  then show "lex_exp s = Some (e, rest) \<Longrightarrow> length rest \<le> length s" by (simp add: lex_exp_def)
next
  case (Cons x r)
  assume a: "lex_exp s = Some (e, rest)"
  show "length rest \<le> length s"
  proof (cases r)
    case Nil
    with a Cons show ?thesis by (auto simp: lex_exp_def Let_def split: if_splits)
  next
    case (Cons y t)
    with a \<open>s = x # r\<close> show ?thesis
      using length_dropWhile_le [of is_digit t] length_dropWhile_le [of is_digit r]
      by (auto simp: lex_exp_def Let_def split: if_splits)
  qed
qed

lemma lex_number_length:
  assumes "lex_number (c # cs) = Some (r, rest)"
  shows "length rest \<le> length cs"
proof -
  from assms obtain ds s2 fs s3 e where
    i: "lex_int (if c = CHR ''-'' then tl (c # cs) else c # cs) = Some (ds, s2)"
    and f: "lex_frac s2 = Some (fs, s3)" and x: "lex_exp s3 = Some (e, rest)"
    by (auto simp: lex_number_def Let_def split: option.splits)
  from i have "length s2 \<le> length cs"
    using lex_int_length [OF i] by (auto split: if_splits)
  with lex_frac_length [OF f] lex_exp_length [OF x] show ?thesis by simp
qed

function tokenize :: "string \<Rightarrow> token list option" where
  "tokenize [] = Some []"
| "tokenize (c # cs) =
     (if is_json_ws c then tokenize cs
      else if c = CHR ''{'' then map_option ((#) TLBrace) (tokenize cs)
      else if c = CHR ''}'' then map_option ((#) TRBrace) (tokenize cs)
      else if c = CHR ''['' then map_option ((#) TLBracket) (tokenize cs)
      else if c = CHR '']'' then map_option ((#) TRBracket) (tokenize cs)
      else if c = CHR '':'' then map_option ((#) TColon) (tokenize cs)
      else if c = CHR '','' then map_option ((#) TComma) (tokenize cs)
      else if c = dquote then
        (case lex_string [] cs of
           None \<Rightarrow> None
         | Some (s, rest) \<Rightarrow> map_option ((#) (TStr s)) (tokenize rest))
      else if c = CHR ''-'' \<or> is_digit c then
        (case lex_number (c # cs) of
           None \<Rightarrow> None
         | Some (r, rest) \<Rightarrow> map_option ((#) (TNum r)) (tokenize rest))
      else if prefix ''true'' (c # cs) then map_option ((#) TTrue) (tokenize (drop 3 cs))
      else if prefix ''false'' (c # cs) then map_option ((#) TFalse) (tokenize (drop 4 cs))
      else if prefix ''null'' (c # cs) then map_option ((#) TNull) (tokenize (drop 3 cs))
      else None)"
  by pat_completeness auto
termination
proof (relation "measure length")
  fix c cs x2 x y
  assume "lex_string [] cs = Some x2" "(x, y) = x2"
  then show "(y, c # cs) \<in> measure length"
    using lex_string_length [of "[]" cs x y] by simp
next
  fix c cs x2 x y
  assume "lex_number (c # cs) = Some x2" "(x, y) = x2"
  then show "(y, c # cs) \<in> measure length"
    using lex_number_length [of c cs x y] by simp
qed auto


text \<open>
  The recogniser: \<open>mode\<close> says what may come next, the stack holds the arrays (elements
  read so far, last first) and objects (members read so far, and the key whose value is
  awaited) that are still open.
\<close>

datatype frame = FArr "json list" | FObj "(string \<times> json) list" "string option"

datatype mode =
    NeedValue | AfterOpenArray | AfterOpenObject | NeedKey | NeedColon | AfterValue
  | Finished json

fun complete :: "json \<Rightarrow> frame list \<Rightarrow> (mode \<times> frame list) option" where
  "complete v [] = Some (Finished v, [])"
| "complete v (FArr vs # st) = Some (AfterValue, FArr (v # vs) # st)"
| "complete v (FObj ms (Some k) # st) = Some (AfterValue, FObj (AList.update k v ms) None # st)"
| "complete v (FObj ms None # st) = None"

fun close_array :: "frame list \<Rightarrow> (mode \<times> frame list) option" where
  "close_array (FArr vs # st) = complete (JArr (rev vs)) st"
| "close_array st = None"

fun close_object :: "frame list \<Rightarrow> (mode \<times> frame list) option" where
  "close_object (FObj ms None # st) = complete (JObj ms) st"
| "close_object st = None"

fun value_start :: "frame list \<Rightarrow> token \<Rightarrow> (mode \<times> frame list) option" where
  "value_start st TLBracket = Some (AfterOpenArray, FArr [] # st)"
| "value_start st TLBrace = Some (AfterOpenObject, FObj [] None # st)"
| "value_start st (TStr s) = complete (JStr s) st"
| "value_start st (TNum r) = complete (JNum r) st"
| "value_start st TTrue = complete (JBool True) st"
| "value_start st TFalse = complete (JBool False) st"
| "value_start st TNull = complete JNull st"
| "value_start st t = None"

fun key_start :: "frame list \<Rightarrow> token \<Rightarrow> (mode \<times> frame list) option" where
  "key_start (FObj ms None # st) (TStr k) = Some (NeedColon, FObj ms (Some k) # st)"
| "key_start st t = None"

fun step :: "mode \<Rightarrow> frame list \<Rightarrow> token \<Rightarrow> (mode \<times> frame list) option" where
  "step NeedValue st t = value_start st t"
| "step AfterOpenArray st t = (case t of TRBracket \<Rightarrow> close_array st | _ \<Rightarrow> value_start st t)"
| "step AfterOpenObject st t = (case t of TRBrace \<Rightarrow> close_object st | _ \<Rightarrow> key_start st t)"
| "step NeedKey st t = key_start st t"
| "step NeedColon st t = (case t of TColon \<Rightarrow> Some (NeedValue, st) | _ \<Rightarrow> None)"
| "step AfterValue st t =
     (case st of
        FArr vs # _ \<Rightarrow>
          (case t of TComma \<Rightarrow> Some (NeedValue, st) | TRBracket \<Rightarrow> close_array st | _ \<Rightarrow> None)
      | FObj ms None # _ \<Rightarrow>
          (case t of TComma \<Rightarrow> Some (NeedKey, st) | TRBrace \<Rightarrow> close_object st | _ \<Rightarrow> None)
      | _ \<Rightarrow> None)"
| "step (Finished v) st t = None"

fun run :: "mode \<Rightarrow> frame list \<Rightarrow> token list \<Rightarrow> json option" where
  "run m st [] = (case m of Finished v \<Rightarrow> Some v | _ \<Rightarrow> None)"
| "run m st (t # ts) = (case step m st t of None \<Rightarrow> None | Some (m', st') \<Rightarrow> run m' st' ts)"

definition JSON_parse :: "string \<Rightarrow> json option" where
  "JSON_parse s = (case tokenize s of None \<Rightarrow> None | Some ts \<Rightarrow> run NeedValue [] ts)"

section \<open>The tolerant parser\<close>

text \<open>
  \<open>_parseAIResponse\<close> throws an Error whose message starts with \<open>Invalid AI response
  format:\<close> followed by \<open>No JSON found in response\<close> (\<open>NoJSONFound\<close>) or by \<open>Could not parse
  AI response as valid JSON:\<close> and the runtime's own text (\<open>CouldNotParse\<close>).

  \<open>strip_marker p\<close> is \<open>replace(/p\n?/g, '')\<close> for a literal \<open>p\<close>; \<open>match_braces\<close> is
  \<open>match(/\{[\s\S]*\}/)\<close>, the span from the first opening brace to the last closing
  brace after it. \<open>fix_values\<close> is \<open>replace(/:\s*'([^']*)'/g, ': "$1"')\<close>, \<open>fix_keys\<close> is
  \<open>replace(/\{\s*'([^']*)'\s*:/g, '{"$1":')\<close>, and \<open>fix_descriptions\<close> is the replacement
  of \<open>/("description":\s*")([^"]*?)"/g\<close> by the prefix, the content with its double
  quotes escaped, and a double quote.
\<close>

datatype parse_error = NoJSONFound | CouldNotParse

definition drop_newline :: "string \<Rightarrow> string" where
  "drop_newline s = (case s of [] \<Rightarrow> [] | c # r \<Rightarrow> if c = CHR 0x0A then r else s)"

lemma length_drop_newline: "length (drop_newline s) \<le> length s"
  by (cases s) (simp_all add: drop_newline_def)

function strip_marker :: "string \<Rightarrow> string \<Rightarrow> string" where
  "strip_marker p [] = []"
| "strip_marker p (c # cs) =
     (if p \<noteq> [] \<and> prefix p (c # cs)
      then strip_marker p (drop_newline (drop (length p) (c # cs)))
      else c # strip_marker p cs)"
  by pat_completeness auto
termination
proof (relation "measure (\<lambda>(p, s). length s)")
  fix p :: string and c cs
  assume "p \<noteq> [] \<and> prefix p (c # cs)"
  then have "length (drop (length p) (c # cs)) < length (c # cs)" by (cases p) auto
  then show "((p, drop_newline (drop (length p) (c # cs))), p, c # cs) \<in> measure (\<lambda>(p, s). length s)"
    using length_drop_newline [of "drop (length p) (c # cs)"] by simp
qed auto

definition fence :: string where
  "fence = [backtick, backtick, backtick]"

definition match_braces :: "string \<Rightarrow> string option" where
  "match_braces s =
     (case dropWhile (\<lambda>c. c \<noteq> CHR ''{'') s of
        [] \<Rightarrow> None
      | b # rest \<Rightarrow>
          if CHR ''}'' \<in> set rest
          then Some (b # rev (dropWhile (\<lambda>c. c \<noteq> CHR ''}'') (rev rest)))
          else None)"

definition quoted :: "char \<Rightarrow> string \<Rightarrow> (string \<times> string) option" where
  "quoted q s =
     (case s of
        [] \<Rightarrow> None
      | c # r \<Rightarrow>
          if c = q \<and> q \<in> set r
          then Some (takeWhile (\<lambda>x. x \<noteq> q) r, tl (dropWhile (\<lambda>x. x \<noteq> q) r))
          else None)"

lemma quoted_length: "quoted q s = Some (content, rest) \<Longrightarrow> length rest < length s"
proof (cases s)
  case Nil
  then show "quoted q s = Some (content, rest) \<Longrightarrow> length rest < length s"
    by (simp add: quoted_def)
next
  case (Cons c r)
  assume "quoted q s = Some (content, rest)"
  with Cons have "rest = tl (dropWhile (\<lambda>x. x \<noteq> q) r)"
    by (auto simp: quoted_def split: if_splits)
  then have "length rest \<le> length r"
    using length_dropWhile_le [of "\<lambda>x. x \<noteq> q" r] by simp
  with Cons show "length rest < length s" by simp
qed

function fix_values :: "string \<Rightarrow> string" where
  "fix_values [] = []"
| "fix_values (c # cs) =
     (if c = CHR '':'' then
        (case quoted squote (dropWhile is_space cs) of
           Some (content, rest) \<Rightarrow> '': '' @ [dquote] @ content @ [dquote] @ fix_values rest
         | None \<Rightarrow> c # fix_values cs)
      else c # fix_values cs)"
  by pat_completeness auto
termination
proof (relation "measure length")
  fix c cs x2 x y
  assume "quoted squote (dropWhile is_space cs) = Some x2" "(x, y) = x2"
  then have "length y < length (dropWhile is_space cs)"
    using quoted_length [of squote "dropWhile is_space cs" x y] by simp
  then show "(y, c # cs) \<in> measure length"
    using length_dropWhile_le [of is_space cs] by simp
qed auto

text \<open>After the quoted key: optional whitespace and a colon.\<close>

definition colon_after :: "string \<Rightarrow> string option" where
  "colon_after s =
     (case dropWhile is_space s of
        [] \<Rightarrow> None
      | c # r \<Rightarrow> if c = CHR '':'' then Some r else None)"

lemma colon_after_length: "colon_after s = Some r \<Longrightarrow> length r < length s"
proof -
  assume "colon_after s = Some r"
  then obtain c where "dropWhile is_space s = c # r"
    by (auto simp: colon_after_def split: list.splits if_splits)
  then show ?thesis
    using length_dropWhile_le [of is_space s] by simp
qed

function fix_keys :: "string \<Rightarrow> string" where
  "fix_keys [] = []"
| "fix_keys (c # cs) =
     (if c = CHR ''{'' then
        (case quoted squote (dropWhile is_space cs) of
           Some (content, rest) \<Rightarrow>
             (case colon_after rest of
                Some rest' \<Rightarrow> ''{'' @ [dquote] @ content @ [dquote] @ '':'' @ fix_keys rest'
              | None \<Rightarrow> c # fix_keys cs)
         | None \<Rightarrow> c # fix_keys cs)
      else c # fix_keys cs)"
  by pat_completeness auto
termination
proof (relation "measure length")
  fix c cs x2 x y x2a
  assume "quoted squote (dropWhile is_space cs) = Some x2" "(x, y) = x2" "colon_after y = Some x2a"
  then have "length y < length (dropWhile is_space cs)" "length x2a < length y"
    using quoted_length [of squote "dropWhile is_space cs" x y] colon_after_length [of y x2a]
    by simp_all
  then show "(x2a, c # cs) \<in> measure length"
    using length_dropWhile_le [of is_space cs] by simp
qed auto

definition description_key :: string where
  "description_key = [dquote] @ ''description'' @ [dquote] @ '':''"

definition escape_quotes :: "string \<Rightarrow> string" where
  "escape_quotes s = concat (map (\<lambda>c. if c = dquote then [backslash, dquote] else [c]) s)"

function fix_descriptions :: "string \<Rightarrow> string" where
  "fix_descriptions [] = []"
| "fix_descriptions (c # cs) =
     (if prefix description_key (c # cs) then
        (let after = drop (length description_key) (c # cs)
         in case quoted dquote (dropWhile is_space after) of
              Some (content, rest) \<Rightarrow>
                description_key @ takeWhile is_space after @ [dquote]
                  @ escape_quotes content @ [dquote] @ fix_descriptions rest
            | None \<Rightarrow> c # fix_descriptions cs)
      else c # fix_descriptions cs)"
  by pat_completeness auto
termination
proof (relation "measure length")
  fix c cs x x2 xa y
  assume "x = drop (length description_key) (c # cs)"
    "quoted dquote (dropWhile is_space x) = Some x2" "(xa, y) = x2"
  then have "length y < length (dropWhile is_space x)" "length x \<le> length (c # cs)"
    using quoted_length [of dquote "dropWhile is_space x" xa y] by simp_all
  then show "(y, c # cs) \<in> measure length"
    using length_dropWhile_le [of is_space x] by simp
qed auto

fun truthy :: "json \<Rightarrow> bool" where
  "truthy JNull = False"
| "truthy (JBool b) = b"
| "truthy (JNum r) = (r \<noteq> 0)"
| "truthy (JStr s) = (s \<noteq> [])"
| "truthy (JArr vs) = True"
| "truthy (JObj ms) = True"

definition looks_like_json :: "string \<Rightarrow> bool" where
  "looks_like_json s =
     (s \<noteq> [] \<and> ((hd s = CHR ''{'' \<and> last s = CHR ''}'') \<or> (hd s = CHR ''['' \<and> last s = CHR '']'')))"

definition validateAndParse :: "json \<Rightarrow> json" where
  "validateAndParse obj =
     (case obj of
        JStr s \<Rightarrow>
          if looks_like_json s
          then (case JSON_parse (map (\<lambda>c. if c = squote then dquote else c) s) of
                  Some v \<Rightarrow> v
                | None \<Rightarrow> obj)
          else obj
      | _ \<Rightarrow> obj)"

definition fix_field :: "string \<Rightarrow> (string \<times> json) list \<Rightarrow> (string \<times> json) list" where
  "fix_field k ms =
     (case map_of ms k of
        Some v \<Rightarrow> if truthy v then AList.update k (validateAndParse v) ms else ms
      | None \<Rightarrow> ms)"

definition validateAndFixParsedData :: "json \<Rightarrow> json" where
  "validateAndFixParsedData parsed =
     (case parsed of
        JObj ms \<Rightarrow>
          JObj (fold fix_field
            [''parties'', ''keyDates'', ''financialTerms'', ''clauses'', ''risks'', ''issues'',
             ''recommendations'', ''comparableTerms''] ms)
      | _ \<Rightarrow> parsed)"

definition parseAIResponse :: "string \<Rightarrow> parse_error + json" where
  "parseAIResponse text =
     (let cleanText = trim (strip_marker fence (strip_marker (fence @ ''json'') text))
      in case match_braces cleanText of
           None \<Rightarrow> Inl NoJSONFound
         | Some jsonStr \<Rightarrow>
             (case JSON_parse jsonStr of
                Some parsed \<Rightarrow> Inr (validateAndFixParsedData parsed)
              | None \<Rightarrow>
                  (case JSON_parse (fix_descriptions (fix_keys (fix_values jsonStr))) of
                     Some parsed \<Rightarrow> Inr (validateAndFixParsedData parsed)
                   | None \<Rightarrow> Inl CouldNotParse)))"

section \<open>The contract document\<close>

datatype status = Pending | Processing | Analyzed | Failed

datatype date_value = DateMs int | DateNull | DateUndefined

record key_date =
  dateType :: string
  date :: date_value
  description :: string

record similar =
  contractId :: nat
  similarity :: number
  matchedFeatures :: "string list"

record pricing =
  marketPosition :: "json option"
  recommendations :: json
  comparableTerms :: json

datatype score = Score real | Coerced

text \<open>
  The document of models/Contract.js. The entries of \<open>keyDates\<close> have type \<open>'kd\<close>:
  \<open>json\<close> while analyzeContract assigns the array a stage returned, \<open>key_date\<close> for a
  stored document, whose \<open>date\<close> Mongoose has cast to a Date (the cast is the library's
  and is not modelled). \<open>lastError\<close> is \<open>None\<close> when the property is null or undefined.
\<close>

record 'kd contract =
  cid :: nat
  title :: string
  textContent :: "string option"
  status :: status
  parties :: "json list"
  keyDates :: "'kd list"
  financialTerms :: "json list"
  clauses :: "json list"
  riskLevel :: "json option"
  risks :: "json list"
  complianceScore :: "json option"
  complianceIssues :: "json list"
  similarContracts :: "similar list"
  pricingAnalysis :: "pricing option"
  aiAnalysisDate :: "int option"
  aiConfidenceScore :: "score option"
  aiProcessingTime :: "int option"
  lastError :: "string option"
  errorCount :: int

section \<open>Results of the service calls\<close>

text \<open>
  What an aiService method resolves to: \<open>{ok: true, data}\<close>, or
  \<open>{ok: false, error, fallback}\<close> from its catch block, or the bare fallback object
  itself, which has no \<open>ok\<close>, \<open>data\<close> or \<open>error\<close> property.
\<close>

datatype 'a result = ROk 'a | RFail string 'a | RBare 'a

fun res_ok :: "'a result \<Rightarrow> bool" where
  "res_ok (ROk d) = True"
| "res_ok (RFail e f) = False"
| "res_ok (RBare f) = False"

fun res_error :: "'a result \<Rightarrow> string option" where
  "res_error (ROk d) = None"
| "res_error (RFail e f) = Some e"
| "res_error (RBare f) = None"

section \<open>Lexical similarity\<close>

text \<open>\<open>s.split(/\s+/)\<close>: the pieces between runs of whitespace; a leading or trailing run
  leaves an empty piece at that end.\<close>

fun split_aux :: "string \<Rightarrow> bool \<Rightarrow> string \<Rightarrow> string list" where
  "split_aux cur in_sep [] = [rev cur]"
| "split_aux cur in_sep (c # cs) =
     (if is_space c
      then (if in_sep then split_aux cur True cs else rev cur # split_aux [] True cs)
      else split_aux (c # cur) False cs)"

definition split_ws :: "string \<Rightarrow> string list" where
  "split_ws s = split_aux [] False s"

text \<open>
  The frequency table is a JavaScript object. Assigning to the key \<open>__proto__\<close> of an
  object does not create a property, so that word is never counted.
  \<open>Object.entries\<close> lists the keys that are array indices (canonical decimal numerals
  below \<open>2^32 - 1\<close>) first, in ascending numeric order, and then the other keys in
  insertion order. (For the word \<open>constructor\<close> JavaScript finds the inherited property and
  builds a string instead of a count, after which the order of the sort is
  implementation-defined; the model counts it like any other word.)
\<close>

definition count_word :: "string \<Rightarrow> (string \<times> nat) list \<Rightarrow> (string \<times> nat) list" where
  "count_word w frequency =
     (if w = ''__proto__'' then frequency
      else AList.update w (case map_of frequency w of None \<Rightarrow> 1 | Some n \<Rightarrow> n + 1) frequency)"

definition is_array_index :: "string \<Rightarrow> bool" where
  "is_array_index w =
     (w \<noteq> [] \<and> list_all is_digit w \<and> (w = ''0'' \<or> hd w \<noteq> CHR ''0'') \<and> digits_value w < 4294967295)"

definition Object_entries :: "(string \<times> nat) list \<Rightarrow> (string \<times> nat) list" where
  "Object_entries obj =
     sort_key (\<lambda>e. digits_value (fst e)) (filter (\<lambda>e. is_array_index (fst e)) obj)
     @ filter (\<lambda>e. \<not> is_array_index (fst e)) obj"

definition extractKeywords :: "string \<Rightarrow> string list" where
  "extractKeywords text =
     (let words = filter (\<lambda>w. length w > 4)
            (split_ws (filter (\<lambda>c. is_word c \<or> is_space c) (toLowerCase text)));
          frequency = fold count_word words []
      in map fst (take 20 (sort_key (\<lambda>e. - int (snd e)) (Object_entries frequency))))"

text \<open>\<open>matches / keywords1.length\<close> is \<open>0 / 0\<close>, that is NaN, when there is no keyword.\<close>

definition calculateSimilarity :: "string list \<Rightarrow> string option \<Rightarrow> number" where
  "calculateSimilarity keywords1 text2 =
     (case text2 of
        None \<Rightarrow> Num 0
      | Some t2 \<Rightarrow>
          if t2 = [] then Num 0
          else let text2Lower = toLowerCase t2;
                   matches = length (filter (\<lambda>k. str_includes text2Lower k) keywords1)
               in if length keywords1 = 0 then NaN
                  else Num (real matches / real (length keywords1)))"

definition features :: "string list" where
  "features = [''termination'', ''payment'', ''liability'', ''confidentiality'', ''indemnification'']"

text \<open>\<open>text1.includes(f) && text2.includes(f)\<close> over the features in order: the second
  test is reached only when the first holds, and throws a TypeError when \<open>text2\<close> is
  null or undefined (the message is V8's).\<close>

fun matched :: "string \<Rightarrow> string option \<Rightarrow> string list \<Rightarrow> string + string list" where
  "matched text1 text2 [] = Inr []"
| "matched text1 text2 (f # fs) =
     (if str_includes text1 f
      then (case text2 of
              None \<Rightarrow> Inl ''Cannot read properties of undefined (reading 'includes')''
            | Some t2 \<Rightarrow>
                (case matched text1 text2 fs of
                   Inl e \<Rightarrow> Inl e
                 | Inr r \<Rightarrow> Inr (if str_includes t2 f then f # r else r)))
      else matched text1 text2 fs)"

definition findMatchedFeatures :: "string \<Rightarrow> string option \<Rightarrow> string + string list" where
  "findMatchedFeatures text1 text2 = matched text1 text2 features"

text \<open>The callback of \<open>allContracts.map\<close>, and the map itself, which stops at the first
  exception.\<close>

definition similar_of :: "string \<Rightarrow> string list \<Rightarrow> 'kd contract \<Rightarrow> string + similar" where
  "similar_of contractText keywords c =
     (case findMatchedFeatures contractText (textContent c) of
        Inl e \<Rightarrow> Inl e
      | Inr fs \<Rightarrow>
          Inr \<lparr>contractId = cid c,
               similarity = calculateSimilarity keywords (textContent c),
               matchedFeatures = fs\<rparr>)"

fun map_throwing :: "('a \<Rightarrow> string + 'b) \<Rightarrow> 'a list \<Rightarrow> string + 'b list" where
  "map_throwing f [] = Inr []"
| "map_throwing f (x # xs) =
     (case f x of
        Inl e \<Rightarrow> Inl e
      | Inr y \<Rightarrow> (case map_throwing f xs of Inl e \<Rightarrow> Inl e | Inr ys \<Rightarrow> Inr (y # ys)))"

fun above_threshold :: "number \<Rightarrow> bool" where
  "above_threshold (Num r) = (r > 3 / 10)"
| "above_threshold NaN = False"

text \<open>The comparator \<open>b.similarity - a.similarity\<close>; the sort of an array is stable. No
  NaN is left after the filter.\<close>

fun descending :: "number \<Rightarrow> real" where
  "descending (Num r) = - r"
| "descending NaN = 0"

definition findSimilarContracts :: "string \<Rightarrow> 'kd contract list \<Rightarrow> similar list result" where
  "findSimilarContracts contractText allContracts =
     (let keywords = extractKeywords contractText
      in case map_throwing (similar_of contractText keywords) allContracts of
           Inl e \<Rightarrow> RFail e []
         | Inr sims \<Rightarrow>
             ROk (take 5 (sort_key (\<lambda>s. descending (similarity s))
                    (filter (\<lambda>s. above_threshold (similarity s)) sims))))"

section \<open>Analysis-stage clients\<close>

text \<open>
  The capability is external: what \<open>client.messages.create\<close> does for one call is a
  parameter, either an exception with its message or the text of the reply. A client
  returns its result and the number of capability calls it made. The prompt, and with it
  the texts a client is given, has no other effect.
\<close>

datatype reply = Throws string | Returns string

definition error_message :: "parse_error \<Rightarrow> string" where
  "error_message e =
     ''Invalid AI response format: '' @
       (case e of
          NoJSONFound \<Rightarrow> ''No JSON found in response''
        | CouldNotParse \<Rightarrow> ''Could not parse AI response as valid JSON: '')"

definition fallbackExtraction :: json where
  "fallbackExtraction =
     JObj [(''parties'', JArr []), (''keyDates'', JArr []), (''financialTerms'', JArr []),
           (''clauses'', JArr []), (''confidence'', JNum 0),
           (''note'', JStr ''AI service unavailable - manual review required'')]"

definition fallbackRiskAssessment :: json where
  "fallbackRiskAssessment =
     JObj [(''riskLevel'', JStr ''medium''), (''risks'', JArr []),
           (''overallAssessment'', JStr ''AI service unavailable - manual review recommended''),
           (''confidence'', JNum 0)]"

definition fallbackCompliance :: json where
  "fallbackCompliance =
     JObj [(''complianceScore'', JNum 50), (''issues'', JArr []),
           (''recommendations'', JArr [JStr ''Manual compliance review recommended'']),
           (''confidence'', JNum 0)]"

definition fallbackPricingAnalysis :: json where
  "fallbackPricingAnalysis =
     JObj [(''marketPosition'', JStr ''average''), (''analysis'', JStr ''AI service unavailable''),
           (''recommendations'', JArr [JStr ''Manual pricing review recommended'']),
           (''comparableTerms'', JArr []), (''confidence'', JNum 0)]"

text \<open>The body the four clients share: the guard on \<open>config.ai.enabled\<close>, then the call
  and the parse inside \<open>try\<close>, with the catch block's result for either failure.\<close>

definition client :: "bool \<Rightarrow> json \<Rightarrow> reply \<Rightarrow> json result \<times> nat" where
  "client enabled fallback r =
     (if \<not> enabled then (RBare fallback, 0)
      else (case r of
              Throws msg \<Rightarrow> RFail msg fallback
            | Returns rawResponse \<Rightarrow>
                (case parseAIResponse rawResponse of
                   Inl e \<Rightarrow> RFail (error_message e) fallback
                 | Inr result \<Rightarrow> ROk result), 1))"

definition extractContractIntelligence :: "bool \<Rightarrow> reply \<Rightarrow> json result \<times> nat" where
  "extractContractIntelligence enabled r = client enabled fallbackExtraction r"

definition assessRisks :: "bool \<Rightarrow> reply \<Rightarrow> json result \<times> nat" where
  "assessRisks enabled r = client enabled fallbackRiskAssessment r"

definition checkCompliance :: "bool \<Rightarrow> reply \<Rightarrow> json result \<times> nat" where
  "checkCompliance enabled r = client enabled fallbackCompliance r"

definition analyzePricing :: "bool \<Rightarrow> reply \<Rightarrow> json result \<times> nat" where
  "analyzePricing enabled r = client enabled fallbackPricingAnalysis r"

section \<open>The orchestrator\<close>

text \<open>
  The store is the list of the documents; \<open>findById\<close> and \<open>save\<close> do not fail, so the
  catch block of \<open>analyzeContract\<close>, which handles the exceptions of the store and of
  Mongoose's validation, has no counterpart here. The deadline alert at the end of a run
  is sent without being awaited and changes neither the document nor the response.
\<close>

definition findById :: "'kd contract list \<Rightarrow> nat \<Rightarrow> 'kd contract option" where
  "findById store i = find (\<lambda>c. cid c = i) store"

definition save :: "'kd contract \<Rightarrow> 'kd contract list \<Rightarrow> 'kd contract list" where
  "save d store = map (\<lambda>c. if cid c = cid d then d else c) store"

text \<open>\<open>{ok: true, data}\<close>, or \<open>{ok: false, error, data}\<close> where \<open>error\<close> may be undefined and
  \<open>data\<close> is present only when \<open>_handleAnalysisError\<close> built the response.\<close>

datatype 'kd response = Success "'kd contract" | Failure "string option" "'kd contract option"

definition field :: "json \<Rightarrow> string \<Rightarrow> json option" where
  "field j k = (case j of JObj ms \<Rightarrow> map_of ms k | _ \<Rightarrow> None)"

text \<open>\<open>Array.isArray(x) && x.length > 0\<close> guards the assignment of an extracted array.\<close>

definition merged :: "json \<Rightarrow> string \<Rightarrow> json list \<Rightarrow> json list" where
  "merged intelligence k old =
     (case field intelligence k of
        Some (JArr vs) \<Rightarrow> if length vs > 0 then vs else old
      | _ \<Rightarrow> old)"

text \<open>\<open>Array.isArray(x) ? x : []\<close> and \<open>x || []\<close>.\<close>

definition array_or_empty :: "json option \<Rightarrow> json list" where
  "array_or_empty x = (case x of Some (JArr vs) \<Rightarrow> vs | _ \<Rightarrow> [])"

definition or_empty :: "json option \<Rightarrow> json" where
  "or_empty x = (case x of Some v \<Rightarrow> if truthy v then v else JArr [] | None \<Rightarrow> JArr [])"

definition or_zero :: "json option \<Rightarrow> json" where
  "or_zero x = (case x of Some v \<Rightarrow> if truthy v then v else JNum 0 | None \<Rightarrow> JNum 0)"

text \<open>
  \<open>_calculateOverallConfidence\<close>. The first entry is a number by the \<open>typeof\<close> test; the
  other two are the stage's \<open>confidence\<close> when the stage is ok and the value is truthy,
  and 0 otherwise. When such a value is not a number (a string, \<open>true\<close>, an array, an
  object) JavaScript compares and adds by coercion; the model does not follow it and
  returns \<open>Coerced\<close>.
\<close>

definition stage_entry :: "json result \<Rightarrow> json" where
  "stage_entry r = (case r of ROk d \<Rightarrow> or_zero (field d ''confidence'') | _ \<Rightarrow> JNum 0)"

fun numbers :: "json list \<Rightarrow> real list option" where
  "numbers [] = Some []"
| "numbers (JNum r # vs) = map_option ((#) r) (numbers vs)"
| "numbers (v # vs) = None"

definition calculateOverallConfidence :: "json \<Rightarrow> json result \<Rightarrow> json result \<Rightarrow> score" where
  "calculateOverallConfidence intelligence riskResult complianceResult =
     (let confidences =
            [(case field intelligence ''confidence'' of Some (JNum r) \<Rightarrow> JNum r | _ \<Rightarrow> JNum 0),
             stage_entry riskResult,
             stage_entry complianceResult]
      in case numbers confidences of
           None \<Rightarrow> Coerced
         | Some cs \<Rightarrow>
             (let validConfidences = filter (\<lambda>c. c > 0) cs
              in if length validConfidences = 0 then Score 0
                 else Score (foldl (+) 0 validConfidences / real (length validConfidences))))"

definition handleAnalysisError ::
  "'kd contract list \<Rightarrow> 'kd contract \<Rightarrow> string option \<Rightarrow> 'kd response \<times> 'kd contract list" where
  "handleAnalysisError store contract errorMessage =
     (let contract' = contract\<lparr>status := Failed, lastError := errorMessage,
                                errorCount := errorCount contract + 1\<rparr>
      in (Failure errorMessage (Some contract'), save contract' store))"

record llm =
  intelligenceReply :: reply
  riskReply :: reply
  complianceReply :: reply
  pricingReply :: reply

definition after_intelligence :: "json \<Rightarrow> json contract \<Rightarrow> json contract" where
  "after_intelligence intelligence contract =
     contract\<lparr>parties := merged intelligence ''parties'' (parties contract),
              keyDates := merged intelligence ''keyDates'' (keyDates contract),
              financialTerms := merged intelligence ''financialTerms'' (financialTerms contract),
              clauses := merged intelligence ''clauses'' (clauses contract)\<rparr>"

definition after_risk :: "json result \<Rightarrow> json contract \<Rightarrow> json contract" where
  "after_risk riskResult contract =
     (case riskResult of
        ROk d \<Rightarrow> contract\<lparr>riskLevel := field d ''riskLevel'',
                            risks := array_or_empty (field d ''risks'')\<rparr>
      | _ \<Rightarrow> contract)"

definition after_compliance :: "json result \<Rightarrow> json contract \<Rightarrow> json contract" where
  "after_compliance complianceResult contract =
     (case complianceResult of
        ROk d \<Rightarrow> contract\<lparr>complianceScore := field d ''complianceScore'',
                            complianceIssues := array_or_empty (field d ''issues'')\<rparr>
      | _ \<Rightarrow> contract)"

definition after_pricing :: "bool \<Rightarrow> reply \<Rightarrow> json contract \<Rightarrow> json contract" where
  "after_pricing enabled r contract =
     (if length (financialTerms contract) > 0
      then (case fst (analyzePricing enabled r) of
              ROk d \<Rightarrow>
                contract\<lparr>pricingAnalysis :=
                  Some \<lparr>marketPosition = field d ''marketPosition'',
                        recommendations = or_empty (field d ''recommendations''),
                        comparableTerms = or_empty (field d ''comparableTerms'')\<rparr>\<rparr>
            | _ \<Rightarrow> contract)
      else contract)"

definition after_similarity :: "string \<Rightarrow> json contract list \<Rightarrow> json contract \<Rightarrow> json contract" where
  "after_similarity contractText store contract =
     (let otherContracts =
            take 50 (filter (\<lambda>c. cid c \<noteq> cid contract \<and> textContent c \<noteq> None) store)
      in case findSimilarContracts contractText otherContracts of
           ROk d \<Rightarrow> contract\<lparr>similarContracts := d\<rparr>
         | _ \<Rightarrow> contract)"

definition analyzeContract ::
  "bool \<Rightarrow> llm \<Rightarrow> int \<Rightarrow> int \<Rightarrow> json contract list \<Rightarrow> nat
     \<Rightarrow> json response \<times> json contract list" where
  "analyzeContract enabled ai startTime endTime store contract_id =
     (case findById store contract_id of
        None \<Rightarrow> (Failure (Some ''Contract not found'') None, store)
      | Some contract \<Rightarrow>
          (case textContent contract of
             None \<Rightarrow> (Failure (Some ''Contract has no text content'') None, store)
           | Some contractText \<Rightarrow>
               if contractText = [] then (Failure (Some ''Contract has no text content'') None, store)
               else
                 (let processing = contract\<lparr>status := Processing\<rparr>;
                      store1 = save processing store;
                      intelligenceResult = fst (extractContractIntelligence enabled (intelligenceReply ai))
                  in case intelligenceResult of
                       ROk intelligence \<Rightarrow>
                         (let riskResult = fst (assessRisks enabled (riskReply ai));
                              complianceResult = fst (checkCompliance enabled (complianceReply ai));
                              analysed =
                                after_similarity contractText store1
                                  (after_pricing enabled (pricingReply ai)
                                    (after_compliance complianceResult
                                      (after_risk riskResult
                                        (after_intelligence intelligence processing))));
                              final = analysed
                                \<lparr>aiAnalysisDate := Some endTime,
                                 aiProcessingTime := Some (endTime - startTime),
                                 aiConfidenceScore :=
                                   Some (calculateOverallConfidence
                                     (JObj [(''confidence'', or_zero (field intelligence ''confidence''))])
                                     riskResult complianceResult),
                                 status := Analyzed,
                                 errorCount := 0,
                                 lastError := None\<rparr>
                          in (Success final, save final store1))
                     | _ \<Rightarrow> handleAnalysisError store1 processing (res_error intelligenceResult))))"

section \<open>Deadlines and dashboard statistics\<close>

text \<open>
  \<open>kd.date >= now\<close> and \<open>kd.date <= thirtyDaysFromNow\<close>: a Date compares by its
  millisecond value, \<open>null\<close> as 0, and \<open>undefined\<close> as NaN, for which every comparison is
  false. The clock is read once (\<open>now\<close>, in milliseconds since the epoch).
\<close>

fun date_ge :: "date_value \<Rightarrow> int \<Rightarrow> bool" where
  "date_ge (DateMs d) t = (d \<ge> t)"
| "date_ge DateNull t = (0 \<ge> t)"
| "date_ge DateUndefined t = False"

fun date_le :: "date_value \<Rightarrow> int \<Rightarrow> bool" where
  "date_le (DateMs d) t = (d \<le> t)"
| "date_le DateNull t = (0 \<le> t)"
| "date_le DateUndefined t = False"

fun date_num :: "date_value \<Rightarrow> int" where
  "date_num (DateMs d) = d"
| "date_num DateNull = 0"
| "date_num DateUndefined = 0"

definition thirtyDaysFromNow :: "int \<Rightarrow> int" where
  "thirtyDaysFromNow now = now + 30 * 24 * 60 * 60 * 1000"

definition upcoming :: "int \<Rightarrow> key_date \<Rightarrow> bool" where
  "upcoming now kd = (date_ge (date kd) now \<and> date_le (date kd) (thirtyDaysFromNow now))"

text \<open>
  The query \<open>{'keyDates.date': {$gte: now, $lte: thirtyDaysFromNow}}\<close>: some entry has a
  Date at or after \<open>now\<close> and some entry has a Date at or before the limit (a null or
  missing date matches neither bound).
\<close>

fun query_gte :: "int \<Rightarrow> key_date \<Rightarrow> bool" where
  "query_gte t kd = (case date kd of DateMs d \<Rightarrow> d \<ge> t | _ \<Rightarrow> False)"

fun query_lte :: "int \<Rightarrow> key_date \<Rightarrow> bool" where
  "query_lte t kd = (case date kd of DateMs d \<Rightarrow> d \<le> t | _ \<Rightarrow> False)"

definition find_keyDates_in :: "int \<Rightarrow> int \<Rightarrow> key_date contract list \<Rightarrow> key_date contract list" where
  "find_keyDates_in lo hi docs =
     filter (\<lambda>c. list_ex (query_gte lo) (keyDates c) \<and> list_ex (query_lte hi) (keyDates c)) docs"

record deadline = key_date +
  ofContract :: nat
  contractTitle :: string

definition deadline_of :: "key_date contract \<Rightarrow> key_date \<Rightarrow> deadline" where
  "deadline_of c kd =
     \<lparr>dateType = dateType kd, date = date kd, description = description kd,
      ofContract = cid c, contractTitle = title c\<rparr>"

definition getUpcomingDeadlines :: "int \<Rightarrow> key_date contract list \<Rightarrow> deadline list" where
  "getUpcomingDeadlines now docs =
     sort_key (\<lambda>d. date_num (date d))
       (concat (map (\<lambda>c. map (deadline_of c) (filter (upcoming now) (keyDates c)))
          (find_keyDates_in now (thirtyDaysFromNow now) docs)))"

text \<open>\<open>_checkDeadlinesAndAlert\<close>: the deadlines the alert is sent for; no alert when the
  list is empty.\<close>

definition checkDeadlinesAndAlert :: "int \<Rightarrow> key_date contract \<Rightarrow> key_date list option" where
  "checkDeadlinesAndAlert now c =
     (let upcomingDeadlines = filter (upcoming now) (keyDates c)
      in if length upcomingDeadlines > 0 then Some upcomingDeadlines else None)"

record stats =
  totalContracts :: nat
  analyzedContracts :: nat
  highRiskContracts :: nat
  avgComplianceScore :: real
  upcomingDeadlines :: nat

definition compliance_scores :: "'kd contract list \<Rightarrow> real list" where
  "compliance_scores docs =
     concat (map (\<lambda>c. case complianceScore c of Some (JNum r) \<Rightarrow> [r] | _ \<Rightarrow> []) docs)"

definition getDashboardStats :: "int \<Rightarrow> key_date contract list \<Rightarrow> stats" where
  "getDashboardStats now docs =
     \<lparr>totalContracts = length docs,
      analyzedContracts = length (filter (\<lambda>c. status c = Analyzed) docs),
      highRiskContracts =
        length (filter (\<lambda>c. riskLevel c = Some (JStr ''high'') \<or> riskLevel c = Some (JStr ''critical'')) docs),
      avgComplianceScore =
        (let scores = compliance_scores docs
         in if scores = [] then 0 else sum_list scores / real (length scores)),
      upcomingDeadlines = length (getUpcomingDeadlines now docs)\<rparr>"

text \<open>The claim's wording: the date lies in the closed interval from now to now plus
  30 days.\<close>

definition in_closed_window :: "int \<Rightarrow> key_date \<Rightarrow> bool" where
  "in_closed_window now kd =
     (case date kd of DateMs d \<Rightarrow> now \<le> d \<and> d \<le> now + 2592000000 | _ \<Rightarrow> False)"

text \<open>The claim's wording: the fraction of the keyword set that appears as substrings
  of a text.\<close>

definition keyword_fraction :: "string list \<Rightarrow> string \<Rightarrow> real" where
  "keyword_fraction K t = real (card {k \<in> set K. str_includes t k}) / real (card (set K))"

text \<open>A character that lower-casing, the removal of \<open>[^\w\s]\<close> and the split all leave
  in place.\<close>

definition plain :: "char \<Rightarrow> bool" where
  "plain c = (is_word c \<and> \<not> is_space c \<and> lower_char c = c)"

text \<open>The element the callback builds for a candidate whose text is present.\<close>

definition entry :: "string \<Rightarrow> 'kd contract \<Rightarrow> similar" where
  "entry text c =
     \<lparr>contractId = cid c,
      similarity = calculateSimilarity (extractKeywords text) (textContent c),
      matchedFeatures = filter (\<lambda>f. str_includes text f \<and> str_includes (the (textContent c)) f) features\<rparr>"

text \<open>The claim's wording: lower-case, strip the non-alphanumeric characters, split on
  whitespace.\<close>

definition is_alphanumeric :: "char \<Rightarrow> bool" where
  "is_alphanumeric c =
     ((65 \<le> code c \<and> code c \<le> 90) \<or> (97 \<le> code c \<and> code c \<le> 122) \<or> is_digit c)"

definition claimed_tokens :: "string \<Rightarrow> string list" where
  "claimed_tokens text =
     split_ws (filter (\<lambda>c. is_alphanumeric c \<or> is_space c) (toLowerCase text))"

section \<open>Example data\<close>

definition example_doc :: "key_date contract" where
  "example_doc =
     \<lparr>cid = 1, title = ''A'', textContent = Some ''text'', status = Pending, parties = [],
      keyDates = [\<lparr>dateType = ''renewal'', date = DateMs 2592001000, description = ''in''\<rparr>,
                  \<lparr>dateType = ''expiration'', date = DateMs 2592002000, description = ''out''\<rparr>,
                  \<lparr>dateType = ''other'', date = DateNull, description = ''none''\<rparr>],
      financialTerms = [], clauses = [], riskLevel = None, risks = [], complianceScore = None,
      complianceIssues = [], similarContracts = [], pricingAnalysis = None,
      aiAnalysisDate = None, aiConfidenceScore = None, aiProcessingTime = None,
      lastError = None, errorCount = 0\<rparr>"

definition candidate :: "nat \<Rightarrow> string option \<Rightarrow> key_date contract" where
  "candidate i t = example_doc\<lparr>cid := i, textContent := t\<rparr>"

definition fresh :: "json contract" where
  "fresh =
     \<lparr>cid = 1, title = ''Services agreement'', textContent = Some ''The payment is due in 30 days.'',
      status = Pending, parties = [], keyDates = [], financialTerms = [], clauses = [],
      riskLevel = None, risks = [], complianceScore = None, complianceIssues = [],
      similarContracts = [], pricingAnalysis = None, aiAnalysisDate = None,
      aiConfidenceScore = None, aiProcessingTime = None, lastError = None, errorCount = 0\<rparr>"

definition sample_ai :: llm where
  \<open>sample_ai =
     \<lparr>intelligenceReply = Returns ''{"parties": [{"name": "Acme", "role": "client"}], "keyDates": [], "confidence": 0.9}'',
      riskReply = Throws ''overloaded'',
      complianceReply = Returns ''{"complianceScore": 80, "issues": [], "confidence": 0.6}'',
      pricingReply = Throws ''overloaded''\<rparr>\<close>

section \<open>Properties of the deadline window\<close>

lemma upcoming_DateMs:
  "date kd = DateMs d \<Longrightarrow> upcoming now kd = (now \<le> d \<and> d \<le> now + 2592000000)"
  by (simp add: upcoming_def thirtyDaysFromNow_def)

lemma upcoming_in_closed_window:
  "0 < now \<Longrightarrow> upcoming now kd = in_closed_window now kd"
  by (cases "date kd") (simp_all add: upcoming_def thirtyDaysFromNow_def in_closed_window_def)

lemma upcoming_query:
  "0 < now \<Longrightarrow> upcoming now kd \<Longrightarrow> query_gte now kd \<and> query_lte (thirtyDaysFromNow now) kd"
  by (cases "date kd") (simp_all add: upcoming_def)

lemma no_upcoming_outside_query:
  assumes "0 < now"
    and "\<not> (list_ex (query_gte now) kds \<and> list_ex (query_lte (thirtyDaysFromNow now)) kds)"
  shows "filter (upcoming now) kds = []"
proof -
  have "\<not> upcoming now kd" if "kd \<in> set kds" for kd
    using assms that upcoming_query [of now kd] by (auto simp: list_ex_iff)
  then show ?thesis by (simp add: filter_empty_conv)
qed

lemma length_getUpcomingDeadlines:
  assumes "0 < now"
  shows "length (getUpcomingDeadlines now docs) =
    sum_list (map (\<lambda>c. length (filter (in_closed_window now) (keyDates c))) docs)"
proof -
  have "length (concat (map (\<lambda>c. map (deadline_of c) (filter (upcoming now) (keyDates c)))
          (find_keyDates_in now (thirtyDaysFromNow now) docs))) =
        sum_list (map (\<lambda>c. length (filter (upcoming now) (keyDates c))) docs)"
  proof (induction docs)
    case Nil
    then show ?case by (simp add: find_keyDates_in_def)
  next
    case (Cons c docs)
    then show ?case
      using no_upcoming_outside_query [OF assms, of "keyDates c"]
      by (auto simp: find_keyDates_in_def)
  qed
  moreover have "upcoming now = in_closed_window now"
    using assms by (intro ext) (rule upcoming_in_closed_window)
  ultimately show ?thesis
    by (simp add: getUpcomingDeadlines_def)
qed

text \<open>
  C9. A key date whose date is a Date counts as upcoming exactly when the date lies in
  the closed interval from \<open>now\<close> to \<open>now\<close> plus 30 days: the date exactly 30 days from
  now is in, the date 30 days and one second from now is out. With the clock after the
  epoch, \<open>upcomingDeadlines\<close> of the dashboard statistics is the number of key-date
  entries, over all documents, whose date lies in that interval.
\<close>

theorem deadline_window_closed:
  "(\<forall>kd d. date kd = DateMs d \<longrightarrow> upcoming now kd = (now \<le> d \<and> d \<le> now + 30 * 24 * 60 * 60 * 1000))
   \<and> upcoming now \<lparr>dateType = t, date = DateMs (now + 30 * 24 * 60 * 60 * 1000), description = s\<rparr>
   \<and> \<not> upcoming now \<lparr>dateType = t, date = DateMs (now + 30 * 24 * 60 * 60 * 1000 + 1000), description = s\<rparr>
   \<and> (0 < now \<longrightarrow> upcomingDeadlines (getDashboardStats now docs) =
        sum_list (map (\<lambda>c. length (filter (in_closed_window now) (keyDates c))) docs))"
  using length_getUpcomingDeadlines [of now docs]
  by (simp add: upcoming_DateMs getDashboardStats_def)

theorem deadline_window_closed_witness:
  "upcoming 1000 \<lparr>dateType = ''renewal'', date = DateMs 2592001000, description = ''in''\<rparr>
   \<and> \<not> upcoming 1000 \<lparr>dateType = ''renewal'', date = DateMs 2592002000, description = ''in''\<rparr>
   \<and> (0::int) < 1000
   \<and> upcomingDeadlines (getDashboardStats 1000 [example_doc]) = 1"
  using deadline_window_closed [of 1000 "''renewal''" "''in''" "[example_doc]"]
  by (simp add: in_closed_window_def example_doc_def)

section \<open>Properties of the tolerant parser\<close>

lemma set_drop_newline: "set (drop_newline s) \<subseteq> set s"
  by (cases s) (auto simp: drop_newline_def)

lemma set_strip_marker: "set (strip_marker p s) \<subseteq> set s"
proof (induction p s rule: strip_marker.induct)
  case (1 p)
  then show ?case by simp
next
  case (2 p c cs)
  show ?case
  proof (cases "p \<noteq> [] \<and> prefix p (c # cs)")
    case True
    then have "set (strip_marker p (c # cs)) \<subseteq> set (drop_newline (drop (length p) (c # cs)))"
      using 2 by simp
    also have "\<dots> \<subseteq> set (drop (length p) (c # cs))" by (rule set_drop_newline)
    also have "\<dots> \<subseteq> set (c # cs)" by (rule set_drop_subset)
    finally show ?thesis .
  next
    case False
    then show ?thesis using 2 by auto
  qed
qed

lemma set_trim: "set (trim s) \<subseteq> set s"
proof -
  have "set (trim s) \<subseteq> set (rev (dropWhile is_space s))"
    unfolding trim_def using set_dropWhileD by fastforce
  also have "\<dots> \<subseteq> set s" using set_dropWhileD by fastforce
  finally show ?thesis .
qed

lemma no_brace_no_json:
  assumes "CHR ''{'' \<notin> set text"
  shows "parseAIResponse text = Inl NoJSONFound"
proof -
  let ?clean = "trim (strip_marker fence (strip_marker (fence @ ''json'') text))"
  have "set ?clean \<subseteq> set text"
    using set_trim set_strip_marker by (meson subset_trans)
  with assms have "CHR ''{'' \<notin> set ?clean" by blast
  then have "dropWhile (\<lambda>c. c \<noteq> CHR ''{'') ?clean = []"
    unfolding dropWhile_eq_Nil_conv by blast
  then have "match_braces ?clean = None"
    unfolding match_braces_def by (simp only: list.case)
  then show ?thesis by (simp add: parseAIResponse_def Let_def)
qed

text \<open>
  C4. A text with no opening brace fails with \<open>NoJSONFound\<close> (\<open>no_brace_no_json\<close> above).
  The single-quoted input of the claim is not parsed: \<open>fix_values\<close> re-quotes the value
  after the first colon and \<open>fix_keys\<close> re-quotes only a key that follows an opening
  brace, so the key \<open>risks\<close>, which follows a comma, keeps its single quotes and the second
  strict parse fails too. The same object with double quotes parses to the record of the
  claim, and so does a single-quoted object with one key.
\<close>

theorem single_quoted_keys_not_repaired:
  \<open>parseAIResponse ''{'riskLevel': 'high', 'risks': []}'' = Inl CouldNotParse
   \<and> fix_descriptions (fix_keys (fix_values ''{'riskLevel': 'high', 'risks': []}'')) =
       ''{"riskLevel": "high", 'risks': []}''
   \<and> parseAIResponse ''{"riskLevel": "high", "risks": []}'' =
       Inr (JObj [(''riskLevel'', JStr ''high''), (''risks'', JArr [])])
   \<and> parseAIResponse ''{'riskLevel': 'high'}'' = Inr (JObj [(''riskLevel'', JStr ''high'')])\<close>
  by code_simp

section \<open>Properties of the similarity scorer\<close>

lemma str_includes_iff: "str_includes s k = (\<exists>ps ss. s = ps @ k @ ss)"
proof (induction s)
  case Nil
  then show ?case by auto
next
  case (Cons c cs)
  show ?case
  proof
    assume "str_includes (c # cs) k"
    then consider "prefix k (c # cs)" | "str_includes cs k" by auto
    then show "\<exists>ps ss. c # cs = ps @ k @ ss"
    proof cases
      case 1
      then obtain ss where "c # cs = k @ ss" by (auto simp: prefix_def)
      then have "c # cs = [] @ k @ ss" by simp
      then show ?thesis by blast
    next
      case 2
      with Cons.IH obtain ps ss where "cs = ps @ k @ ss" by blast
      then have "c # cs = (c # ps) @ k @ ss" by simp
      then show ?thesis by blast
    qed
  next
    assume "\<exists>ps ss. c # cs = ps @ k @ ss"
    then obtain ps ss where eq: "c # cs = ps @ k @ ss" by blast
    show "str_includes (c # cs) k"
    proof (cases ps)
      case Nil
      with eq have "prefix k (c # cs)" by (simp add: prefix_def)
      then show ?thesis by simp
    next
      case (Cons p ps')
      with eq have "cs = ps' @ k @ ss" by simp
      with Cons.IH have "str_includes cs k" by blast
      then show ?thesis by simp
    qed
  qed
qed

lemma split_aux_has_cur:
  "\<exists>w \<in> set (split_aux cur s xs). length cur \<le> length w"
proof (induction xs arbitrary: cur s)
  case Nil
  then show ?case by simp
next
  case (Cons x xs)
  show ?case
  proof (cases "is_space x")
    case True
    then show ?thesis using Cons.IH [of cur True] by (cases s) auto
  next
    case False
    obtain w where "w \<in> set (split_aux (x # cur) False xs)" "length (x # cur) \<le> length w"
      using Cons.IH [of "x # cur" False] by blast
    with False have "w \<in> set (split_aux cur s (x # xs))" "length cur \<le> length w"
      by simp_all
    then show ?thesis by blast
  qed
qed

lemma split_aux_run:
  assumes "\<forall>c \<in> set f. \<not> is_space c"
  shows "\<exists>w \<in> set (split_aux cur s (f @ b)). length cur + length f \<le> length w"
  using assms
proof (induction f arbitrary: cur s)
  case Nil
  then show ?case using split_aux_has_cur [of cur s b] by simp
next
  case (Cons x f)
  then have "\<forall>c \<in> set f. \<not> is_space c" and nx: "\<not> is_space x" by simp_all
  then obtain w where "w \<in> set (split_aux (x # cur) False (f @ b))"
      "length (x # cur) + length f \<le> length w"
    using Cons.IH [of "x # cur" False] by blast
  with nx have "w \<in> set (split_aux cur s ((x # f) @ b))" "length cur + length (x # f) \<le> length w"
    by simp_all
  then show ?case by blast
qed

lemma split_aux_contains:
  assumes "\<forall>c \<in> set f. \<not> is_space c"
  shows "\<exists>w \<in> set (split_aux cur s (a @ f @ b)). length f \<le> length w"
proof (induction a arbitrary: cur s)
  case Nil
  obtain w where "w \<in> set (split_aux cur s (f @ b))" "length cur + length f \<le> length w"
    using split_aux_run [OF assms, of cur s b] by blast
  then have "w \<in> set (split_aux cur s ([] @ f @ b))" "length f \<le> length w" by simp_all
  then show ?case by blast
next
  case (Cons x a)
  show ?case
  proof (cases "is_space x")
    case True
    then show ?thesis using Cons.IH [of cur True] Cons.IH [of "[]" True] by (cases s) auto
  next
    case False
    then show ?thesis using Cons.IH [of "x # cur" False] by simp
  qed
qed

lemma features_all_plain: "list_all (\<lambda>f. list_all plain f \<and> 4 < length f) features"
  by code_simp

lemma features_plain: "f \<in> set features \<Longrightarrow> (\<forall>c \<in> set f. plain c) \<and> 4 < length f"
  using features_all_plain by (simp add: list_all_iff)

lemma includes_token:
  assumes inc: "str_includes text f" and pl: "\<forall>c \<in> set f. plain c"
  shows "\<exists>w \<in> set (split_ws (filter (\<lambda>c. is_word c \<or> is_space c) (toLowerCase text))). length f \<le> length w"
proof -
  from inc obtain ps ss where "text = ps @ f @ ss" by (auto simp: str_includes_iff)
  moreover have "map lower_char f = f" using pl by (simp add: plain_def map_idI)
  moreover have "filter (\<lambda>c. is_word c \<or> is_space c) f = f" using pl by (simp add: plain_def)
  ultimately have "filter (\<lambda>c. is_word c \<or> is_space c) (toLowerCase text) =
      filter (\<lambda>c. is_word c \<or> is_space c) (toLowerCase ps) @ f
      @ filter (\<lambda>c. is_word c \<or> is_space c) (toLowerCase ss)"
    by (simp add: toLowerCase_def)
  moreover have "\<forall>c \<in> set f. \<not> is_space c" using pl by (simp add: plain_def)
  ultimately show ?thesis
    using split_aux_contains [of f "[]" False] by (simp add: split_ws_def)
qed

lemma no_feature_in_short_text:
  assumes "list_all (\<lambda>w. length w \<le> 4) (split_ws (filter (\<lambda>c. is_word c \<or> is_space c) (toLowerCase text)))"
    and "f \<in> set features"
  shows "\<not> str_includes text f"
proof
  assume "str_includes text f"
  with assms(2) obtain w where
    "w \<in> set (split_ws (filter (\<lambda>c. is_word c \<or> is_space c) (toLowerCase text)))" "length f \<le> length w"
    using includes_token features_plain by blast
  moreover have "4 < length f" using assms(2) features_plain by blast
  ultimately show False using assms(1) by (auto simp: list_all_iff)
qed

lemma matched_none:
  "(\<forall>f \<in> set fs. \<not> str_includes text1 f) \<Longrightarrow> matched text1 text2 fs = Inr []"
  by (induction fs) auto

lemma extractKeywords_short:
  assumes "list_all (\<lambda>w. length w \<le> 4) (split_ws (filter (\<lambda>c. is_word c \<or> is_space c) (toLowerCase text)))"
  shows "extractKeywords text = []"
proof -
  have "filter (\<lambda>w. length w > 4) (split_ws (filter (\<lambda>c. is_word c \<or> is_space c) (toLowerCase text))) = []"
    using assms by (auto simp: list_all_iff filter_empty_conv)
  then show ?thesis
    by (simp add: extractKeywords_def Object_entries_def)
qed

lemma not_above_without_keywords: "\<not> above_threshold (calculateSimilarity [] t2)"
  by (simp add: calculateSimilarity_def split: option.splits)

lemma map_throwing_Inr:
  "(\<forall>x \<in> set xs. f x = Inr (g x)) \<Longrightarrow> map_throwing f xs = Inr (map g xs)"
  by (induction xs) auto

lemma distinct_fold_count_word:
  "distinct (map fst acc) \<Longrightarrow> distinct (map fst (fold count_word ws acc))"
  by (induction ws arbitrary: acc) (simp_all add: count_word_def distinct_update)

lemma distinct_Object_entries:
  assumes "distinct (map fst obj)"
  shows "distinct (map fst (Object_entries obj))"
proof -
  have d: "distinct obj" using assms by (simp add: distinct_map)
  have "distinct (Object_entries obj)"
    unfolding Object_entries_def using d by auto
  moreover have "inj_on fst (set obj)" using assms by (simp add: distinct_map)
  then have "inj_on fst (set (Object_entries obj))"
    by (rule inj_on_subset) (auto simp: Object_entries_def)
  ultimately show ?thesis by (simp only: distinct_map)
qed

lemma distinct_extractKeywords: "distinct (extractKeywords text)"
proof -
  have "distinct (map fst (sort_key f (Object_entries (fold count_word ws []))))" for f ws
  proof -
    have d: "distinct (map fst (Object_entries (fold count_word ws [])))"
      by (intro distinct_Object_entries distinct_fold_count_word) simp
    then have "distinct (Object_entries (fold count_word ws []))" by (simp add: distinct_map)
    moreover have "inj_on fst (set (Object_entries (fold count_word ws [])))"
      using d by (simp add: distinct_map)
    ultimately show ?thesis by (simp add: distinct_map)
  qed
  then have "distinct (take 20 (map fst (sort_key f (Object_entries (fold count_word ws [])))))" for f ws
    by (rule distinct_take)
  then show ?thesis by (simp add: extractKeywords_def Let_def take_map)
qed

lemma calculateSimilarity_fraction:
  assumes "distinct K" "K \<noteq> []" "t \<noteq> []"
  shows "calculateSimilarity K (Some t) = Num (keyword_fraction K (toLowerCase t))"
proof -
  have "length (filter (\<lambda>k. str_includes (toLowerCase t) k) K) =
      card {k \<in> set K. str_includes (toLowerCase t) k}"
    using assms(1) by (simp add: distinct_length_filter Collect_conj_eq Int_commute)
  moreover have "length K = card (set K)" using assms(1) by (simp add: distinct_card)
  ultimately show ?thesis using assms(2,3)
    by (simp add: calculateSimilarity_def keyword_fraction_def Let_def)
qed

lemma matched_Some:
  "matched text1 (Some t2) fs = Inr (filter (\<lambda>f. str_includes text1 f \<and> str_includes t2 f) fs)"
  by (induction fs) auto

lemma similar_of_entry:
  "textContent c \<noteq> None \<Longrightarrow> similar_of text (extractKeywords text) c = Inr (entry text c)"
  by (auto simp: similar_of_def entry_def findMatchedFeatures_def matched_Some)

lemma above_threshold_Num: "above_threshold v \<Longrightarrow> \<exists>r. v = Num r \<and> 3 / 10 < r"
  by (cases v) auto

lemma sorted_descending:
  assumes "\<forall>s \<in> set xs. above_threshold (similarity s)"
  shows "sorted_wrt (\<lambda>a b. \<exists>x y. similarity a = Num x \<and> similarity b = Num y \<and> y \<le> x)
           (sort_key (\<lambda>s. descending (similarity s)) xs)"
proof -
  let ?L = "sort_key (\<lambda>s. descending (similarity s)) xs"
  have "sorted (map (\<lambda>s. descending (similarity s)) ?L)" by (rule sorted_sort_key)
  then have "sorted_wrt (\<lambda>a b. descending (similarity a) \<le> descending (similarity b)) ?L"
    by (simp add: sorted_map)
  moreover have "\<exists>x y. similarity a = Num x \<and> similarity b = Num y \<and> y \<le> x"
    if "a \<in> set ?L" "b \<in> set ?L" "descending (similarity a) \<le> descending (similarity b)" for a b
  proof -
    from that assms obtain x y where "similarity a = Num x" "similarity b = Num y"
      by (metis above_threshold_Num set_sort)
    with that(3) show ?thesis by simp
  qed
  ultimately show ?thesis
    using sorted_wrt_mono_rel [of ?L "\<lambda>a b. descending (similarity a) \<le> descending (similarity b)"
        "\<lambda>a b. \<exists>x y. similarity a = Num x \<and> similarity b = Num y \<and> y \<le> x"]
    by blast
qed

lemma filter_similarity_key:
  "filter (\<lambda>s. similarity s = v) (filter (\<lambda>s. descending (similarity s) = descending v) ys) =
   filter (\<lambda>s. similarity s = v) ys"
  by (induction ys) auto

lemma stable_by_similarity:
  "filter (\<lambda>s. similarity s = v) (sort_key (\<lambda>s. descending (similarity s)) xs) =
   filter (\<lambda>s. similarity s = v) xs"
proof -
  let ?f = "\<lambda>s. descending (similarity s)"
  have "filter (\<lambda>s. similarity s = v) (sort_key ?f xs) =
        filter (\<lambda>s. similarity s = v) (filter (\<lambda>s. ?f s = descending v) (sort_key ?f xs))"
    by (simp only: filter_similarity_key)
  also have "\<dots> = filter (\<lambda>s. similarity s = v) (filter (\<lambda>s. ?f s = descending v) xs)"
    by (simp only: sort_key_stable)
  also have "\<dots> = filter (\<lambda>s. similarity s = v) xs"
    by (simp only: filter_similarity_key)
  finally show ?thesis .
qed

text \<open>
  C5, as amended. For candidates whose text is present, \<open>findSimilarContracts\<close> returns
  exactly the candidates whose similarity is strictly greater than 0.3, sorted
  descending by similarity, candidates of equal similarity in their input order,
  truncated to at most 5 entries. The similarity of a candidate is the fraction of the
  target's keyword set that appears as substrings of the lower-cased candidate text (it
  is 0 for an empty text, and not a number, hence not above 0.3, when there is no
  keyword). With 20 keywords, a candidate matching exactly 6 has similarity 0.3 and is
  excluded, and one matching 7 has similarity 0.35 and passes the threshold.
\<close>

theorem similar_ranking:
  fixes cands :: "'kd contract list"
  assumes "list_all (\<lambda>c. textContent c \<noteq> None) cands"
  shows "\<exists>es L.
      map_throwing (similar_of text (extractKeywords text)) cands = Inr es
    \<and> length es = length cands
    \<and> (\<forall>i < length cands. contractId (es ! i) = cid (cands ! i)
         \<and> (\<forall>t. textContent (cands ! i) = Some t \<longrightarrow>
               (t \<noteq> [] \<and> extractKeywords text \<noteq> [] \<longrightarrow>
                  similarity (es ! i) = Num (keyword_fraction (extractKeywords text) (toLowerCase t)))
             \<and> (t = [] \<or> extractKeywords text = [] \<longrightarrow> \<not> above_threshold (similarity (es ! i)))))
    \<and> findSimilarContracts text cands = ROk (take 5 L)
    \<and> set L = {s \<in> set es. above_threshold (similarity s)}
    \<and> sorted_wrt (\<lambda>a b. \<exists>x y. similarity a = Num x \<and> similarity b = Num y \<and> y \<le> x) L
    \<and> (\<forall>v. filter (\<lambda>s. similarity s = v) L =
            filter (\<lambda>s. similarity s = v) (filter (\<lambda>s. above_threshold (similarity s)) es))
    \<and> (\<forall>K t. length K = 20 \<and> t \<noteq> [] \<longrightarrow>
          (length (filter (\<lambda>k. str_includes (toLowerCase t) k) K) = 6 \<longrightarrow>
             calculateSimilarity K (Some t) = Num (3 / 10) \<and> \<not> above_threshold (calculateSimilarity K (Some t)))
        \<and> (length (filter (\<lambda>k. str_includes (toLowerCase t) k) K) = 7 \<longrightarrow>
             calculateSimilarity K (Some t) = Num (35 / 100) \<and> above_threshold (calculateSimilarity K (Some t))))"
proof -
  let ?K = "extractKeywords text"
  let ?es = "map (entry text) cands"
  let ?Q = "filter (\<lambda>s. above_threshold (similarity s)) ?es"
  let ?L = "sort_key (\<lambda>s. descending (similarity s)) ?Q"
  have m: "map_throwing (similar_of text ?K) cands = Inr ?es"
    using assms by (intro map_throwing_Inr) (simp add: list_all_iff similar_of_entry)
  have e: "contractId (?es ! i) = cid (cands ! i)
         \<and> (\<forall>t. textContent (cands ! i) = Some t \<longrightarrow>
               (t \<noteq> [] \<and> ?K \<noteq> [] \<longrightarrow> similarity (?es ! i) = Num (keyword_fraction ?K (toLowerCase t)))
             \<and> (t = [] \<or> ?K = [] \<longrightarrow> \<not> above_threshold (similarity (?es ! i))))"
    if "i < length cands" for i
    using that distinct_extractKeywords [of "text"]
    by (auto simp: entry_def calculateSimilarity_fraction)
      (auto simp: calculateSimilarity_def Let_def split: if_splits)
  have f: "findSimilarContracts text cands = ROk (take 5 ?L)"
    by (simp add: findSimilarContracts_def m)
  have s: "set ?L = {s \<in> set ?es. above_threshold (similarity s)}" by auto
  have o: "sorted_wrt (\<lambda>a b. \<exists>x y. similarity a = Num x \<and> similarity b = Num y \<and> y \<le> x) ?L"
    by (rule sorted_descending) simp
  have st: "\<forall>v. filter (\<lambda>s. similarity s = v) ?L = filter (\<lambda>s. similarity s = v) ?Q"
    by (simp only: stable_by_similarity) simp
  have th: "\<forall>K t. length K = 20 \<and> t \<noteq> [] \<longrightarrow>
          (length (filter (\<lambda>k. str_includes (toLowerCase t) k) K) = 6 \<longrightarrow>
             calculateSimilarity K (Some t) = Num (3 / 10) \<and> \<not> above_threshold (calculateSimilarity K (Some t)))
        \<and> (length (filter (\<lambda>k. str_includes (toLowerCase t) k) K) = 7 \<longrightarrow>
             calculateSimilarity K (Some t) = Num (35 / 100) \<and> above_threshold (calculateSimilarity K (Some t)))"
    by (simp add: calculateSimilarity_def)
  show ?thesis
    apply (rule exI [of _ ?es])
    apply (rule exI [of _ ?L])
    using m e f s o st th by (simp only: length_map) blast
qed

theorem similar_ranking_witness:
  "list_all (\<lambda>c. textContent c \<noteq> None)
     [candidate 2 (Some ''alpha''), candidate 3 (Some ''Charlie BRAVO''),
      candidate 4 (Some ''bravo alpha''), candidate 5 (Some '' '')]
   \<and> (\<exists>L. findSimilarContracts ''alpha bravo charlie''
          [candidate 2 (Some ''alpha''), candidate 3 (Some ''Charlie BRAVO''),
           candidate 4 (Some ''bravo alpha''), candidate 5 (Some '' '')] = ROk (take 5 L)
        \<and> sorted_wrt (\<lambda>a b. \<exists>x y. similarity a = Num x \<and> similarity b = Num y \<and> y \<le> x) L)
   \<and> findSimilarContracts ''alpha bravo charlie''
          [candidate 2 (Some ''alpha''), candidate 3 (Some ''Charlie BRAVO''),
           candidate 4 (Some ''bravo alpha''), candidate 5 (Some '' '')] =
       ROk [\<lparr>contractId = 3, similarity = Num (2 / 3), matchedFeatures = []\<rparr>,
            \<lparr>contractId = 4, similarity = Num (2 / 3), matchedFeatures = []\<rparr>,
            \<lparr>contractId = 2, similarity = Num (1 / 3), matchedFeatures = []\<rparr>]"
proof -
  let ?cs = "[candidate 2 (Some ''alpha''), candidate 3 (Some ''Charlie BRAVO''),
      candidate 4 (Some ''bravo alpha''), candidate 5 (Some '' '')]"
  have h: "list_all (\<lambda>c. textContent c \<noteq> None) ?cs"
    by (simp add: candidate_def)
  have v: "findSimilarContracts ''alpha bravo charlie'' ?cs =
       ROk [\<lparr>contractId = 3, similarity = Num (2 / 3), matchedFeatures = []\<rparr>,
            \<lparr>contractId = 4, similarity = Num (2 / 3), matchedFeatures = []\<rparr>,
            \<lparr>contractId = 2, similarity = Num (1 / 3), matchedFeatures = []\<rparr>]"
    by code_simp
  from similar_ranking [OF h, of "''alpha bravo charlie''"] obtain L where
    "findSimilarContracts ''alpha bravo charlie'' ?cs = ROk (take 5 L)"
    "sorted_wrt (\<lambda>a b. \<exists>x y. similarity a = Num x \<and> similarity b = Num y \<and> y \<le> x) L"
    by blast
  with h v show ?thesis by blast
qed

text \<open>
  C5 as stated measures the keywords against the candidate text itself. The only
  keyword of the target \<open>payment\<close> is not a substring of the candidate text \<open>PAYMENT\<close>,
  so the stated similarity is 0; the code lower-cases the candidate text and returns the
  candidate with similarity 1.
\<close>

theorem similar_case_counterexample:
  "findSimilarContracts ''payment'' [candidate 2 (Some ''PAYMENT'')] =
     ROk [\<lparr>contractId = 2, similarity = Num 1, matchedFeatures = []\<rparr>]
   \<and> \<not> 3 / 10 < keyword_fraction (extractKeywords ''payment'') ''PAYMENT''"
proof -
  have k: "extractKeywords ''payment'' = [''payment'']" by code_simp
  have "{k \<in> set [''payment'']. str_includes ''PAYMENT'' k} = {}" by auto
  then have "keyword_fraction (extractKeywords ''payment'') ''PAYMENT'' = 0"
    by (simp only: k keyword_fraction_def) simp
  moreover have "findSimilarContracts ''payment'' [candidate 2 (Some ''PAYMENT'')] =
     ROk [\<lparr>contractId = 2, similarity = Num 1, matchedFeatures = []\<rparr>]"
    by code_simp
  ultimately show ?thesis by simp
qed

text \<open>
  C10, as amended. For every target text in which no token (after lower-casing,
  stripping the characters that are neither word characters, that is letters, digits
  and the underscore, nor whitespace, and splitting on whitespace) is longer than 4
  characters, the extracted keyword list is empty, no candidate passes the 0.3 threshold
  (the similarity is 0 or not a number, and nothing is raised), and
  \<open>findSimilarContracts\<close> returns a successful result with an empty list for every
  candidate pool, candidates without text included.
\<close>

theorem short_tokens_no_similar:
  assumes "list_all (\<lambda>w. length w \<le> 4) (split_ws (filter (\<lambda>c. is_word c \<or> is_space c) (toLowerCase text)))"
  shows "extractKeywords text = []
    \<and> list_all (\<lambda>c. \<not> above_threshold (calculateSimilarity (extractKeywords text) (textContent c))) cands
    \<and> findSimilarContracts text cands = ROk []"
proof -
  have kw: "extractKeywords text = []" using assms by (rule extractKeywords_short)
  have "findMatchedFeatures text t2 = Inr []" for t2
    unfolding findMatchedFeatures_def
    using no_feature_in_short_text [OF assms] by (intro matched_none) blast
  then have "\<forall>c \<in> set cands. similar_of text [] c =
      Inr \<lparr>contractId = cid c, similarity = calculateSimilarity [] (textContent c), matchedFeatures = []\<rparr>"
    by (simp add: similar_of_def)
  then have "map_throwing (similar_of text []) cands =
      Inr (map (\<lambda>c. \<lparr>contractId = cid c, similarity = calculateSimilarity [] (textContent c),
                      matchedFeatures = []\<rparr>) cands)"
    by (rule map_throwing_Inr)
  then have "findSimilarContracts text cands = ROk []"
    by (simp add: findSimilarContracts_def kw filter_empty_conv not_above_without_keywords)
  then show ?thesis
    by (simp add: kw list_all_iff not_above_without_keywords)
qed

theorem short_tokens_no_similar_witness:
  "list_all (\<lambda>w. length w \<le> 4)
     (split_ws (filter (\<lambda>c. is_word c \<or> is_space c) (toLowerCase ''Pay the fee now!'')))
   \<and> extractKeywords ''Pay the fee now!'' = []
   \<and> findSimilarContracts ''Pay the fee now!''
        [candidate 2 (Some ''pay the fee''), candidate 3 None] = ROk []"
proof -
  have h: "list_all (\<lambda>w. length w \<le> 4)
     (split_ws (filter (\<lambda>c. is_word c \<or> is_space c) (toLowerCase ''Pay the fee now!'')))"
    by code_simp
  show ?thesis
    using h short_tokens_no_similar [OF h, of "[candidate 2 (Some ''pay the fee''), candidate 3 None]"]
    by simp
qed

text \<open>
  C10 as stated strips every non-alphanumeric character. The text \<open>ab_cd\<close> then has the
  single token \<open>abcd\<close> of 4 characters, but the code keeps the underscore: the keyword
  list is not empty and a candidate is returned.
\<close>

theorem underscore_token_counterexample:
  "claimed_tokens ''ab_cd'' = [''abcd'']
   \<and> extractKeywords ''ab_cd'' = [''ab_cd'']
   \<and> findSimilarContracts ''ab_cd'' [candidate 2 (Some ''see ab_cd'')] =
       ROk [\<lparr>contractId = 2, similarity = Num 1, matchedFeatures = []\<rparr>]"
  by code_simp

end
